theory Spec2Isabelle
  imports Main "HOL-Library.Word"
begin

unbundle bit_operations_syntax

section \<open>The simulated temperature sensor driver\<close>

text \<open>
  The driver modelled here is the revision of \<^verbatim>\<open>nxp_simtemp.c\<close> stored as
  \<^verbatim>\<open>src/unnamed/part_001\<close>: a timer callback that produces one reading per tick,
  three sysfs store functions, and a blocking character-device read.

  All driver state lives in file-scope and function-scope \<^verbatim>\<open>static\<close> variables; the
  model gathers them in one record and passes it explicitly. \<^verbatim>\<open>unsigned int\<close> is a
  32-bit word; \<^verbatim>\<open>int\<close> is a 32-bit word read through \<^term>\<open>sint\<close> (the kernel is
  built so that signed arithmetic wraps in two's complement).
\<close>

type_synonym u32 = "32 word"
type_synonym s32 = "32 word"
type_synonym u64 = "64 word"
type_synonym byte = "8 word"

subsection \<open>Constants\<close>

definition NEW_SAMPLE :: u32 where
  "NEW_SAMPLE = 0x1"

definition THRESHOLD_CROSSED :: u32 where
  "THRESHOLD_CROSSED = 0x2"

text \<open>
  The errno numbers come from the kernel headers (\<^verbatim>\<open>errno-base.h\<close>, \<^verbatim>\<open>linux/errno.h\<close>),
  which are not part of the repository; they have their Linux values here.
\<close>

definition EINVAL :: s32 where
  "EINVAL = 22"

definition EFAULT :: s32 where
  "EFAULT = 14"

definition ERESTARTSYS :: s32 where
  "ERESTARTSYS = 512"

subsection \<open>Driver state\<close>

text \<open>
  \<^verbatim>\<open>mode\<close> is a \<^verbatim>\<open>char[16]\<close> that always holds a NUL-terminated string; the field
  keeps the characters before the terminator. \<^verbatim>\<open>direction\<close> is the function-static of
  \<^verbatim>\<open>simtemp_mode_ramp\<close>, \<^verbatim>\<open>last_alert_state\<close> the function-static of
  \<^verbatim>\<open>simtemp_read\<close>.
\<close>

record simtemp =
  sampling_ms :: u32
  threshold_mC :: s32
  mode :: string
  stats_updates :: u32
  stats_alerts :: u32
  stats_last_error :: s32
  simtemp_current_mC :: s32
  simtemp_sample_seq :: u32
  direction :: s32
  last_alert_state :: s32

text \<open>The static initialisers.\<close>

definition simtemp_static :: simtemp where
  "simtemp_static =
     \<lparr> sampling_ms = 100, threshold_mC = 45000, mode = ''normal'',
       stats_updates = 0, stats_alerts = 0, stats_last_error = 0,
       simtemp_current_mC = 44000, simtemp_sample_seq = 0,
       direction = 1, last_alert_state = 0 \<rparr>"

text \<open>
  \<^verbatim>\<open>nxp_simtemp_probe\<close>: of the driver state it only resets the sample sequence (the
  rest of the function registers the device and arms the timer).
\<close>

definition nxp_simtemp_probe :: "simtemp \<Rightarrow> simtemp" where
  "nxp_simtemp_probe st = st\<lparr>simtemp_sample_seq := 0\<rparr>"

definition simtemp_boot :: simtemp where
  "simtemp_boot = nxp_simtemp_probe simtemp_static"

subsection \<open>Temperature generator\<close>

definition simtemp_mode_normal :: "simtemp \<Rightarrow> simtemp" where
  "simtemp_mode_normal st =
     (let c = simtemp_current_mC st + 10
      in st\<lparr>simtemp_current_mC := (if 46000 < sint c then 44000 else c)\<rparr>)"

text \<open>
  \<^verbatim>\<open>int noise = (get_random_u32() % 200) - 100\<close>: the remainder and the subtraction are
  unsigned 32-bit operations, the result is then read as \<^verbatim>\<open>int\<close>. The random word is
  a parameter.
\<close>

definition simtemp_mode_noisy :: "simtemp \<Rightarrow> u32 \<Rightarrow> simtemp" where
  "simtemp_mode_noisy st rnd =
     (let noise = (rnd mod 200) - 100;
          c = simtemp_current_mC st + noise;
          c = (if 46000 < sint c then 46000 else c);
          c = (if sint c < 44000 then 44000 else c)
      in st\<lparr>simtemp_current_mC := c\<rparr>)"

definition simtemp_mode_ramp :: "simtemp \<Rightarrow> simtemp" where
  "simtemp_mode_ramp st =
     (let c = simtemp_current_mC st + direction st * 50;
          d = (if 46000 \<le> sint c then - 1 else direction st);
          d = (if sint c \<le> 44000 then 1 else d)
      in st\<lparr>simtemp_current_mC := c, direction := d\<rparr>)"

text \<open>
  \<^verbatim>\<open>simtemp_update_temp\<close>, the timer callback: the part between \<^verbatim>\<open>mutex_lock\<close> and
  \<^verbatim>\<open>mutex_unlock\<close>. The wake-up and the re-arming of the timer do not touch the state.
\<close>

definition simtemp_update_temp :: "simtemp \<Rightarrow> u32 \<Rightarrow> simtemp" where
  "simtemp_update_temp st rnd =
     (let st1 = (if mode st = ''noisy'' then simtemp_mode_noisy st rnd
                 else if mode st = ''ramp'' then simtemp_mode_ramp st
                 else if mode st = ''normal'' then simtemp_mode_normal st
                 else st)
      in st1\<lparr>stats_updates := stats_updates st1 + 1,
              simtemp_sample_seq := simtemp_sample_seq st1 + 1\<rparr>)"

text \<open>A run of ticks, one random word per tick.\<close>

definition run_ticks :: "simtemp \<Rightarrow> u32 list \<Rightarrow> simtemp" where
  "run_ticks st rnds = foldl simtemp_update_temp st rnds"

subsection \<open>Sysfs store functions\<close>

text \<open>
  \<^verbatim>\<open>kstrtouint\<close> and \<^verbatim>\<open>kstrtoint\<close> are kernel library routines. Their outcome on the
  written buffer is a parameter of the store functions: \<^term>\<open>None\<close> when the routine
  returns a negative value, \<^term>\<open>Some val\<close> when it returns 0 after storing
  \<^term>\<open>val\<close>. A store function returns the pair of its return value and the new
  state; \<^term>\<open>Inl e\<close> is the negative return value \<^term>\<open>e\<close>, \<^term>\<open>Inr n\<close> the
  byte count \<^term>\<open>n\<close>.
\<close>

definition sampling_ms_store :: "simtemp \<Rightarrow> u32 option \<Rightarrow> nat \<Rightarrow> (s32 + nat) \<times> simtemp" where
  "sampling_ms_store st parsed count =
     (case parsed of
        None \<Rightarrow> (Inl (- EINVAL), st\<lparr>stats_last_error := - EINVAL\<rparr>)
      | Some val \<Rightarrow>
          if val = 0 then (Inl (- EINVAL), st\<lparr>stats_last_error := - EINVAL\<rparr>)
          else (Inr count, st\<lparr>sampling_ms := val\<rparr>))"

definition threshold_mC_store :: "simtemp \<Rightarrow> s32 option \<Rightarrow> nat \<Rightarrow> (s32 + nat) \<times> simtemp" where
  "threshold_mC_store st parsed count =
     (case parsed of
        None \<Rightarrow> (Inl (- EINVAL), st\<lparr>stats_last_error := - EINVAL\<rparr>)
      | Some val \<Rightarrow> (Inr count, st\<lparr>threshold_mC := val\<rparr>))"

text \<open>
  \<^verbatim>\<open>mode_store\<close> receives the written bytes; \<^verbatim>\<open>count\<close> is their number. \<^verbatim>\<open>strcmp\<close>
  and \<^verbatim>\<open>strcpy\<close> see a buffer up to its first NUL, which is what \<open>cstr\<close> returns.
  \<^verbatim>\<open>tmp\<close> is modelled up to the terminator written at index \<^verbatim>\<open>len\<close>.
\<close>

definition cstr :: "string \<Rightarrow> string" where
  "cstr bs = takeWhile (\<lambda>c. c \<noteq> CHR 0x00) bs"

definition mode_store :: "simtemp \<Rightarrow> string \<Rightarrow> (s32 + nat) \<times> simtemp" where
  "mode_store st buf =
     (let count = length buf;
          len = min count 15;
          tmp = take len buf @ [CHR 0x00];
          tmp = (if 0 < len \<and> tmp ! (len - 1) = CHR 0x0A
                 then tmp[len - 1 := CHR 0x00] else tmp)
      in if cstr tmp \<noteq> ''normal'' \<and> cstr tmp \<noteq> ''noisy'' \<and> cstr tmp \<noteq> ''ramp''
         then (Inl (- EINVAL), st\<lparr>stats_last_error := - EINVAL\<rparr>)
         else (Inr count, st\<lparr>mode := cstr tmp\<rparr>))"

text \<open>
  The input as the specification describes it: the string with one trailing newline
  removed.
\<close>

definition strip_newline :: "string \<Rightarrow> string" where
  "strip_newline s = (if s \<noteq> [] \<and> last s = CHR 0x0A then butlast s else s)"

text \<open>
  Auxiliary, for the proofs below: the characters \<^verbatim>\<open>strcmp\<close> finds in \<^verbatim>\<open>tmp\<close> when
  the written bytes contain no NUL.
\<close>

definition mode_token :: "string \<Rightarrow> string" where
  "mode_token buf =
     (let len = min (length buf) 15
      in if 0 < len \<and> buf ! (len - 1) = CHR 0x0A then take (len - 1) buf else take len buf)"

subsection \<open>The sample record\<close>

record simtemp_sample =
  timestamp_ns :: u64
  temp_mC :: s32
  flags :: u32

text \<open>
  The structure is packed: its size is the sum of the field sizes, and the fields lie at
  offsets 0, 8 and 12. \<open>sample_bytes\<close> is the image that \<^verbatim>\<open>copy_to_user\<close> hands over
  on the little-endian machines the driver is built for.
\<close>

definition sizeof_simtemp_sample :: nat where
  "sizeof_simtemp_sample = 8 + 4 + 4"

definition le_bytes :: "nat \<Rightarrow> 'a::len word \<Rightarrow> byte list" where
  "le_bytes n w = map (\<lambda>i. ucast (drop_bit (8 * i) w)) [0..<n]"

definition le_word :: "byte list \<Rightarrow> 'a::len word" where
  "le_word bs = foldr (\<lambda>b acc. ucast b OR push_bit 8 acc) bs 0"

definition sample_bytes :: "simtemp_sample \<Rightarrow> byte list" where
  "sample_bytes smp =
     le_bytes 8 (timestamp_ns smp) @ le_bytes 4 (temp_mC smp) @ le_bytes 4 (flags smp)"

subsection \<open>Blocking read\<close>

text \<open>
  \<^verbatim>\<open>wait_event_interruptible\<close> returns 0 once the sample sequence differs from the
  value seen on entry, or \<^verbatim>\<open>-ERESTARTSYS\<close> when a signal arrives first. The ticks that
  end the wait are steps of the timer; the read is given the state in which the wait
  returns, and how it returned.
\<close>

datatype wait_result = Woken | Signalled

text \<open>
  \<^verbatim>\<open>simtemp_read\<close>. Parameters besides the state: the open file (which the function
  never consults), the outcome of the wait, the value of \<^verbatim>\<open>ktime_get_ns()\<close>, the size
  of the user buffer, and the result of \<^verbatim>\<open>copy_to_user\<close> (the number of bytes it could
  not copy). On success the result carries the returned byte count and the sample
  copied out.
\<close>

definition simtemp_read ::
  "simtemp \<Rightarrow> nat \<Rightarrow> wait_result \<Rightarrow> u64 \<Rightarrow> nat \<Rightarrow> nat \<Rightarrow> (s32 + nat \<times> simtemp_sample) \<times> simtemp" where
  "simtemp_read st file woke now count not_copied =
     (case woke of
        Signalled \<Rightarrow> (Inl (- ERESTARTSYS), st\<lparr>stats_last_error := - ERESTARTSYS\<rparr>)
      | Woken \<Rightarrow>
          (let alert = (if sint (threshold_mC st) \<le> sint (simtemp_current_mC st) then 1 else 0 :: s32);
               sample = \<lparr> timestamp_ns = now, temp_mC = simtemp_current_mC st,
                          flags = (if alert \<noteq> 0 then NEW_SAMPLE OR THRESHOLD_CROSSED
                                   else NEW_SAMPLE) \<rparr>;
               st1 = (if alert \<noteq> last_alert_state st
                      then st\<lparr>stats_alerts := stats_alerts st + 1, last_alert_state := alert\<rparr>
                      else st)
           in if count < sizeof_simtemp_sample
              then (Inl (- EINVAL), st1\<lparr>stats_last_error := - EINVAL\<rparr>)
              else if not_copied \<noteq> 0
              then (Inl (- EFAULT), st1\<lparr>stats_last_error := - EFAULT\<rparr>)
              else (Inr (sizeof_simtemp_sample, sample), st1)))"

subsection \<open>Runs of the driver\<close>

text \<open>
  The operations that act on the driver state after probing: timer ticks, writes to the
  three sysfs attributes, and reads of the character device.
\<close>

datatype event =
    Tick u32
  | Store_sampling_ms "u32 option" nat
  | Store_threshold_mC "s32 option" nat
  | Store_mode string
  | Read nat wait_result u64 nat nat

fun step :: "simtemp \<Rightarrow> event \<Rightarrow> simtemp" where
  "step st (Tick rnd) = simtemp_update_temp st rnd"
| "step st (Store_sampling_ms parsed count) = snd (sampling_ms_store st parsed count)"
| "step st (Store_threshold_mC parsed count) = snd (threshold_mC_store st parsed count)"
| "step st (Store_mode buf) = snd (mode_store st buf)"
| "step st (Read file woke now count not_copied) =
     snd (simtemp_read st file woke now count not_copied)"

definition run :: "simtemp \<Rightarrow> event list \<Rightarrow> simtemp" where
  "run st evs = foldl step st evs"

subsection \<open>The setters of the later revision\<close>

text \<open>
  The repository also holds a later revision of the driver (the C text that follows the
  build script in \<^verbatim>\<open>src/scripts/build.sh\<close>). Its two numeric store functions check
  the value against limits; they are modelled here for comparison.
\<close>

definition SIMTEMP_SAMPLING_MS_MIN :: u32 where
  "SIMTEMP_SAMPLING_MS_MIN = 1"

definition SIMTEMP_SAMPLING_MS_MAX :: u32 where
  "SIMTEMP_SAMPLING_MS_MAX = 10000"

definition SIMTEMP_THRESHOLD_MC_MIN :: s32 where
  "SIMTEMP_THRESHOLD_MC_MIN = - 20000"

definition SIMTEMP_THRESHOLD_MC_MAX :: s32 where
  "SIMTEMP_THRESHOLD_MC_MAX = 60000"

definition sampling_ms_store_rev2 :: "simtemp \<Rightarrow> u32 option \<Rightarrow> nat \<Rightarrow> (s32 + nat) \<times> simtemp" where
  "sampling_ms_store_rev2 st parsed count =
     (case parsed of
        None \<Rightarrow> (Inl (- EINVAL), st\<lparr>stats_last_error := - EINVAL\<rparr>)
      | Some val \<Rightarrow>
          if val < SIMTEMP_SAMPLING_MS_MIN \<or> SIMTEMP_SAMPLING_MS_MAX < val
          then (Inl (- EINVAL), st\<lparr>stats_last_error := - EINVAL\<rparr>)
          else (Inr count, st\<lparr>sampling_ms := val\<rparr>))"

definition threshold_mC_store_rev2 :: "simtemp \<Rightarrow> s32 option \<Rightarrow> nat \<Rightarrow> (s32 + nat) \<times> simtemp" where
  "threshold_mC_store_rev2 st parsed count =
     (case parsed of
        None \<Rightarrow> (Inl (- EINVAL), st\<lparr>stats_last_error := - EINVAL\<rparr>)
      | Some val \<Rightarrow>
          if sint val < sint SIMTEMP_THRESHOLD_MC_MIN \<or> sint SIMTEMP_THRESHOLD_MC_MAX < sint val
          then (Inl (- EINVAL), st\<lparr>stats_last_error := - EINVAL\<rparr>)
          else (Inr count, st\<lparr>threshold_mC := val\<rparr>))"

section \<open>Properties\<close>

subsection \<open>The timer tick\<close>

text \<open>
  Claim C6. Every tick adds exactly one to \<^verbatim>\<open>stats_updates\<close> and to
  \<^verbatim>\<open>simtemp_sample_seq\<close> (as 32-bit counters), whatever the stored mode is; when the
  mode is none of the three known tokens the generator does nothing, so the reading
  (and the ramp direction) stay as they were while the tick is still counted.
\<close>

theorem tick_increments_counters:
  "stats_updates (simtemp_update_temp st rnd) = stats_updates st + 1 \<and>
   simtemp_sample_seq (simtemp_update_temp st rnd) = simtemp_sample_seq st + 1 \<and>
   (mode st \<noteq> ''noisy'' \<and> mode st \<noteq> ''ramp'' \<and> mode st \<noteq> ''normal'' \<longrightarrow>
      simtemp_current_mC (simtemp_update_temp st rnd) = simtemp_current_mC st \<and>
      direction (simtemp_update_temp st rnd) = direction st)"
  by (simp add: simtemp_update_temp_def simtemp_mode_noisy_def simtemp_mode_ramp_def
      simtemp_mode_normal_def Let_def)

theorem tick_increments_counters_witness:
  "mode (simtemp_boot\<lparr>mode := ''turbo''\<rparr>) \<noteq> ''noisy'' \<and>
   mode (simtemp_boot\<lparr>mode := ''turbo''\<rparr>) \<noteq> ''ramp'' \<and>
   mode (simtemp_boot\<lparr>mode := ''turbo''\<rparr>) \<noteq> ''normal'' \<and>
   stats_updates (simtemp_update_temp (simtemp_boot\<lparr>mode := ''turbo''\<rparr>) 7) = 1 \<and>
   simtemp_sample_seq (simtemp_update_temp (simtemp_boot\<lparr>mode := ''turbo''\<rparr>) 7) = 1 \<and>
   simtemp_current_mC (simtemp_update_temp (simtemp_boot\<lparr>mode := ''turbo''\<rparr>) 7) = 44000"
  using tick_increments_counters [of "simtemp_boot\<lparr>mode := ''turbo''\<rparr>" 7]
  by (simp add: simtemp_boot_def nxp_simtemp_probe_def simtemp_static_def)

subsection \<open>Bounds of the generator\<close>

text \<open>Signed addition of two small 32-bit values does not wrap.\<close>

lemma sint_add_small:
  fixes x :: s32
  assumes "- 1000000 \<le> sint x" "sint x \<le> 1000000" "- 1000000 \<le> sint y" "sint y \<le> 1000000"
  shows "sint (x + y) = sint x + sint y"
proof -
  have "sint (x + y) = signed_take_bit 31 (sint x + sint y)"
    by (simp add: sint_word_ariths)
  also have "\<dots> = sint x + sint y"
    using assms by (intro signed_take_bit_int_eq_self) simp_all
  finally show ?thesis .
qed

lemma normal_keeps:
  assumes "44000 \<le> sint (simtemp_current_mC st)" "sint (simtemp_current_mC st) \<le> 46000"
  shows "44000 \<le> sint (simtemp_current_mC (simtemp_mode_normal st)) \<and>
         sint (simtemp_current_mC (simtemp_mode_normal st)) \<le> 46000"
proof -
  have "sint (simtemp_current_mC st + 10) = sint (simtemp_current_mC st) + 10"
    using assms sint_add_small [of "simtemp_current_mC st" 10] by simp
  then show ?thesis
    using assms by (simp add: simtemp_mode_normal_def Let_def)
qed

lemma noisy_bounds:
  "44000 \<le> sint (simtemp_current_mC (simtemp_mode_noisy st r)) \<and>
   sint (simtemp_current_mC (simtemp_mode_noisy st r)) \<le> 46000"
  by (simp add: simtemp_mode_noisy_def Let_def)

lemma ramp_keeps:
  assumes b: "44000 \<le> sint (simtemp_current_mC st)" "sint (simtemp_current_mC st) \<le> 46000"
    and m: "50 dvd sint (simtemp_current_mC st)"
    and d: "direction st = 1 \<or> direction st = - 1"
    and lo: "sint (simtemp_current_mC st) = 44000 \<longrightarrow> direction st = 1"
    and hi: "sint (simtemp_current_mC st) = 46000 \<longrightarrow> direction st = - 1"
  shows "44000 \<le> sint (simtemp_current_mC (simtemp_mode_ramp st)) \<and>
         sint (simtemp_current_mC (simtemp_mode_ramp st)) \<le> 46000 \<and>
         50 dvd sint (simtemp_current_mC (simtemp_mode_ramp st)) \<and>
         (direction (simtemp_mode_ramp st) = 1 \<or> direction (simtemp_mode_ramp st) = - 1) \<and>
         (sint (simtemp_current_mC (simtemp_mode_ramp st)) = 44000 \<longrightarrow>
            direction (simtemp_mode_ramp st) = 1) \<and>
         (sint (simtemp_current_mC (simtemp_mode_ramp st)) = 46000 \<longrightarrow>
            direction (simtemp_mode_ramp st) = - 1)"
proof -
  let ?c = "simtemp_current_mC st"
  from d show ?thesis
  proof
    assume up: "direction st = 1"
    with hi have "sint ?c \<noteq> 46000" by auto
    with b m have le: "sint ?c \<le> 45950" by presburger
    have s: "sint (?c + 50) = sint ?c + 50"
      using b sint_add_small [of ?c 50] by simp
    have m': "50 dvd sint ?c + 50" using m by simp
    show ?thesis
      using b le s m' up by (simp add: simtemp_mode_ramp_def Let_def)
  next
    assume dn: "direction st = - 1"
    with lo have "sint ?c \<noteq> 44000" by auto
    with b m have ge: "44050 \<le> sint ?c" by presburger
    have s: "sint (?c - 50) = sint ?c - 50"
      using b sint_add_small [of ?c "- 50"] by simp
    have m': "50 dvd sint ?c - 50" using m by simp
    show ?thesis
      using b ge s m' dn by (simp add: simtemp_mode_ramp_def Let_def)
  qed
qed

lemma tick_mode [simp]: "mode (simtemp_update_temp st r) = mode st"
  by (simp add: simtemp_update_temp_def simtemp_mode_noisy_def simtemp_mode_ramp_def
      simtemp_mode_normal_def Let_def)

lemma run_ticks_snoc: "run_ticks st (rs @ [r]) = simtemp_update_temp (run_ticks st rs) r"
  by (simp add: run_ticks_def)

lemma run_ticks_mode [simp]: "mode (run_ticks st rs) = mode st"
  by (induction rs rule: rev_induct) (simp_all add: run_ticks_def)

lemma tick_normal_cur:
  "mode st = ''normal'' \<Longrightarrow>
   simtemp_current_mC (simtemp_update_temp st r) = simtemp_current_mC (simtemp_mode_normal st)"
  by (simp add: simtemp_update_temp_def Let_def)

lemma tick_noisy_cur:
  "mode st = ''noisy'' \<Longrightarrow>
   simtemp_current_mC (simtemp_update_temp st r) = simtemp_current_mC (simtemp_mode_noisy st r)"
  by (simp add: simtemp_update_temp_def Let_def)

lemma tick_ramp_cur:
  "mode st = ''ramp'' \<Longrightarrow>
   simtemp_current_mC (simtemp_update_temp st r) = simtemp_current_mC (simtemp_mode_ramp st) \<and>
   direction (simtemp_update_temp st r) = direction (simtemp_mode_ramp st)"
  by (simp add: simtemp_update_temp_def Let_def)

lemma run_normal_bounds:
  assumes "mode st = ''normal''"
    and "44000 \<le> sint (simtemp_current_mC st)" "sint (simtemp_current_mC st) \<le> 46000"
  shows "44000 \<le> sint (simtemp_current_mC (run_ticks st rs)) \<and>
         sint (simtemp_current_mC (run_ticks st rs)) \<le> 46000"
proof (induction rs rule: rev_induct)
  case Nil
  show ?case using assms by (simp add: run_ticks_def)
next
  case (snoc r rs)
  have "mode (run_ticks st rs) = ''normal''" using assms(1) by simp
  then show ?case
    using snoc normal_keeps [of "run_ticks st rs"]
    by (simp add: run_ticks_snoc tick_normal_cur)
qed

lemma run_noisy_bounds:
  assumes "mode st = ''noisy''"
    and "44000 \<le> sint (simtemp_current_mC st)" "sint (simtemp_current_mC st) \<le> 46000"
  shows "44000 \<le> sint (simtemp_current_mC (run_ticks st rs)) \<and>
         sint (simtemp_current_mC (run_ticks st rs)) \<le> 46000"
proof (cases rs rule: rev_cases)
  case Nil
  then show ?thesis using assms by (simp add: run_ticks_def)
next
  case (snoc rs' r)
  have "mode (run_ticks st rs') = ''noisy''" using assms(1) by simp
  then show ?thesis
    using noisy_bounds [of "run_ticks st rs'" r]
    by (simp add: snoc run_ticks_snoc tick_noisy_cur)
qed

lemma run_ramp_inv:
  assumes "mode st = ''ramp''"
    and "44000 \<le> sint (simtemp_current_mC st)" "sint (simtemp_current_mC st) \<le> 46000"
    and "50 dvd sint (simtemp_current_mC st)"
    and "direction st = 1 \<or> direction st = - 1"
    and "sint (simtemp_current_mC st) = 44000 \<longrightarrow> direction st = 1"
    and "sint (simtemp_current_mC st) = 46000 \<longrightarrow> direction st = - 1"
  shows "44000 \<le> sint (simtemp_current_mC (run_ticks st rs)) \<and>
         sint (simtemp_current_mC (run_ticks st rs)) \<le> 46000 \<and>
         50 dvd sint (simtemp_current_mC (run_ticks st rs)) \<and>
         (direction (run_ticks st rs) = 1 \<or> direction (run_ticks st rs) = - 1) \<and>
         (sint (simtemp_current_mC (run_ticks st rs)) = 44000 \<longrightarrow>
            direction (run_ticks st rs) = 1) \<and>
         (sint (simtemp_current_mC (run_ticks st rs)) = 46000 \<longrightarrow>
            direction (run_ticks st rs) = - 1)"
proof (induction rs rule: rev_induct)
  case Nil
  show ?case using assms by (simp add: run_ticks_def)
next
  case (snoc r rs)
  have "mode (run_ticks st rs) = ''ramp''" using assms(1) by simp
  then show ?case
    using snoc ramp_keeps [of "run_ticks st rs"]
    by (simp add: run_ticks_snoc tick_ramp_cur)
qed

text \<open>
  Claim C7. From the boot state (reading 44000, ramp direction +1), after any number of
  ticks spent in one mode the reading lies in [44000, 46010] for \<^verbatim>\<open>normal\<close>, in
  [44000, 46000] for \<^verbatim>\<open>ramp\<close>, and in [44000, 46000] for \<^verbatim>\<open>noisy\<close> whatever the
  random words are. The list \<open>rs\<close> holds one random word per tick.
\<close>

theorem generator_bounds:
  "44000 \<le> sint (simtemp_current_mC (run_ticks (simtemp_boot\<lparr>mode := ''normal''\<rparr>) rs)) \<and>
   sint (simtemp_current_mC (run_ticks (simtemp_boot\<lparr>mode := ''normal''\<rparr>) rs)) \<le> 46010 \<and>
   44000 \<le> sint (simtemp_current_mC (run_ticks (simtemp_boot\<lparr>mode := ''ramp''\<rparr>) rs)) \<and>
   sint (simtemp_current_mC (run_ticks (simtemp_boot\<lparr>mode := ''ramp''\<rparr>) rs)) \<le> 46000 \<and>
   44000 \<le> sint (simtemp_current_mC (run_ticks (simtemp_boot\<lparr>mode := ''noisy''\<rparr>) rs)) \<and>
   sint (simtemp_current_mC (run_ticks (simtemp_boot\<lparr>mode := ''noisy''\<rparr>) rs)) \<le> 46000"
proof -
  have n: "44000 \<le> sint (simtemp_current_mC (run_ticks (simtemp_boot\<lparr>mode := ''normal''\<rparr>) rs)) \<and>
     sint (simtemp_current_mC (run_ticks (simtemp_boot\<lparr>mode := ''normal''\<rparr>) rs)) \<le> 46000"
    by (rule run_normal_bounds)
      (simp_all add: simtemp_boot_def nxp_simtemp_probe_def simtemp_static_def)
  have r: "44000 \<le> sint (simtemp_current_mC (run_ticks (simtemp_boot\<lparr>mode := ''ramp''\<rparr>) rs)) \<and>
     sint (simtemp_current_mC (run_ticks (simtemp_boot\<lparr>mode := ''ramp''\<rparr>) rs)) \<le> 46000"
    using run_ramp_inv [of "simtemp_boot\<lparr>mode := ''ramp''\<rparr>" rs]
    by (simp add: simtemp_boot_def nxp_simtemp_probe_def simtemp_static_def)
  have y: "44000 \<le> sint (simtemp_current_mC (run_ticks (simtemp_boot\<lparr>mode := ''noisy''\<rparr>) rs)) \<and>
     sint (simtemp_current_mC (run_ticks (simtemp_boot\<lparr>mode := ''noisy''\<rparr>) rs)) \<le> 46000"
    by (rule run_noisy_bounds)
      (simp_all add: simtemp_boot_def nxp_simtemp_probe_def simtemp_static_def)
  from n r y show ?thesis by simp
qed

subsection \<open>The record delivered by a read\<close>

lemma length_le_bytes [simp]: "length (le_bytes n w) = n"
  by (simp add: le_bytes_def)

lemma le_bytes_Suc:
  "le_bytes (Suc n) w = ucast w # le_bytes n (drop_bit 8 w)"
proof -
  have "[0..<Suc n] = 0 # map Suc [0..<n]"
    by (simp add: upt_conv_Cons map_Suc_upt del: upt_Suc)
  then show ?thesis
    by (simp add: le_bytes_def comp_def add.commute del: upt_Suc)
qed

lemma le_word_Cons: "le_word (b # bs) = ucast b OR push_bit 8 (le_word bs)"
  by (simp add: le_word_def)

lemma byte_join:
  fixes w :: "'a::len word"
  shows "ucast (ucast w :: byte) OR push_bit 8 (take_bit k (drop_bit 8 w)) = take_bit (8 + k) w"
  by (rule bit_eqI) (auto simp add: bit_simps)

lemma le_word_le_bytes:
  fixes w :: "'a::len word"
  shows "(le_word (le_bytes n w) :: 'a word) = take_bit (8 * n) w"
proof (induction n arbitrary: w)
  case 0
  show ?case by (simp add: le_bytes_def le_word_def)
next
  case (Suc n)
  show ?case
    by (simp add: le_bytes_Suc le_word_Cons Suc byte_join)
qed

lemma le_word_bytes32: "le_word (le_bytes 4 (w :: 32 word)) = w"
  by (simp add: le_word_le_bytes take_bit_word_eq_self)

lemma le_word_bytes64: "le_word (le_bytes 8 (w :: 64 word)) = w"
  by (simp add: le_word_le_bytes take_bit_word_eq_self)

lemma sample_bytes_layout:
  "length (sample_bytes smp) = 16 \<and>
   le_word (take 8 (sample_bytes smp)) = timestamp_ns smp \<and>
   le_word (take 4 (drop 8 (sample_bytes smp))) = temp_mC smp \<and>
   le_word (take 4 (drop 12 (sample_bytes smp))) = flags smp"
  by (simp add: sample_bytes_def le_word_bytes32 le_word_bytes64)

text \<open>
  Claim C9. A read that succeeds returns 16, the size of the one record it copies out;
  in the 16-byte image the time stamp is at offset 0, the temperature at offset 8 and
  the flags at offset 12. The temperature is the current reading, flag bit 0
  (\<^verbatim>\<open>NEW_SAMPLE\<close>) is set, and flag bit 1 (\<^verbatim>\<open>THRESHOLD_CROSSED\<close>) is set exactly when
  the reading is at or above the threshold of the state the sample is taken from.
\<close>

theorem read_record:
  assumes "simtemp_read st f w now count nc = (Inr (n, smp), st')"
  shows "n = 16 \<and> length (sample_bytes smp) = 16 \<and>
         le_word (take 8 (sample_bytes smp)) = timestamp_ns smp \<and>
         le_word (take 4 (drop 8 (sample_bytes smp))) = temp_mC smp \<and>
         le_word (take 4 (drop 12 (sample_bytes smp))) = flags smp \<and>
         temp_mC smp = simtemp_current_mC st \<and>
         bit (flags smp) 0 \<and>
         (bit (flags smp) 1 \<longleftrightarrow> sint (threshold_mC st) \<le> sint (temp_mC smp)) \<and>
         flags smp AND NEW_SAMPLE = NEW_SAMPLE \<and>
         (flags smp AND THRESHOLD_CROSSED = THRESHOLD_CROSSED \<longleftrightarrow>
            sint (threshold_mC st) \<le> sint (temp_mC smp))"
proof -
  from assms have w: "w = Woken"
    by (cases w) (simp_all add: simtemp_read_def)
  from assms w have n: "n = 16"
    by (auto simp add: simtemp_read_def Let_def sizeof_simtemp_sample_def split: if_splits)
  from assms w have t: "temp_mC smp = simtemp_current_mC st"
    by (auto simp add: simtemp_read_def Let_def split: if_splits)
  from assms w have fl: "flags smp =
      (if sint (threshold_mC st) \<le> sint (simtemp_current_mC st)
       then NEW_SAMPLE OR THRESHOLD_CROSSED else NEW_SAMPLE)"
    by (auto simp add: simtemp_read_def Let_def split: if_splits)
  have b: "bit (flags smp) 0 \<and>
         (bit (flags smp) 1 \<longleftrightarrow> sint (threshold_mC st) \<le> sint (temp_mC smp)) \<and>
         flags smp AND NEW_SAMPLE = NEW_SAMPLE \<and>
         (flags smp AND THRESHOLD_CROSSED = THRESHOLD_CROSSED \<longleftrightarrow>
            sint (threshold_mC st) \<le> sint (temp_mC smp))"
    by (simp add: fl t NEW_SAMPLE_def THRESHOLD_CROSSED_def)
  from n sample_bytes_layout [of smp] t b show ?thesis
    by blast
qed

theorem read_record_witness:
  "simtemp_read (simtemp_boot\<lparr>simtemp_current_mC := 45010\<rparr>) 0 Woken 5 16 0 =
     (Inr (16, \<lparr>timestamp_ns = 5, temp_mC = 45010, flags = 3\<rparr>),
      simtemp_boot\<lparr>simtemp_current_mC := 45010, stats_alerts := 1, last_alert_state := 1\<rparr>) \<and>
   length (sample_bytes \<lparr>timestamp_ns = 5, temp_mC = 45010, flags = 3\<rparr>) = 16 \<and>
   bit (3 :: u32) 0 \<and> bit (3 :: u32) 1"
proof -
  have r: "simtemp_read (simtemp_boot\<lparr>simtemp_current_mC := 45010\<rparr>) 0 Woken 5 16 0 =
     (Inr (16, \<lparr>timestamp_ns = 5, temp_mC = 45010, flags = 3\<rparr>),
      simtemp_boot\<lparr>simtemp_current_mC := 45010, stats_alerts := 1, last_alert_state := 1\<rparr>)"
    by (simp add: simtemp_read_def Let_def sizeof_simtemp_sample_def simtemp_boot_def
        nxp_simtemp_probe_def simtemp_static_def NEW_SAMPLE_def THRESHOLD_CROSSED_def)
  from r read_record [OF r] show ?thesis
    by simp
qed

subsection \<open>The two counters of the tick\<close>

lemma tick_counters:
  "stats_updates (simtemp_update_temp st rnd) = stats_updates st + 1 \<and>
   simtemp_sample_seq (simtemp_update_temp st rnd) = simtemp_sample_seq st + 1"
  by (simp add: simtemp_update_temp_def simtemp_mode_noisy_def simtemp_mode_ramp_def
      simtemp_mode_normal_def Let_def)

lemma sampling_ms_store_counters:
  "stats_updates (snd (sampling_ms_store st p n)) = stats_updates st \<and>
   simtemp_sample_seq (snd (sampling_ms_store st p n)) = simtemp_sample_seq st"
  by (simp add: sampling_ms_store_def split: option.split)

lemma threshold_mC_store_counters:
  "stats_updates (snd (threshold_mC_store st p n)) = stats_updates st \<and>
   simtemp_sample_seq (snd (threshold_mC_store st p n)) = simtemp_sample_seq st"
  by (simp add: threshold_mC_store_def split: option.split)

lemma mode_store_counters:
  "stats_updates (snd (mode_store st buf)) = stats_updates st \<and>
   simtemp_sample_seq (snd (mode_store st buf)) = simtemp_sample_seq st"
  by (simp add: mode_store_def Let_def)

lemma simtemp_read_counters:
  "stats_updates (snd (simtemp_read st f w now n nc)) = stats_updates st \<and>
   simtemp_sample_seq (snd (simtemp_read st f w now n nc)) = simtemp_sample_seq st"
  by (simp add: simtemp_read_def Let_def split: wait_result.split)

lemma step_counters:
  "stats_updates (step st ev) - simtemp_sample_seq (step st ev) =
   stats_updates st - simtemp_sample_seq st"
  by (cases ev)
    (simp_all add: tick_counters sampling_ms_store_counters threshold_mC_store_counters
      mode_store_counters simtemp_read_counters)

lemma run_counters:
  "stats_updates (run st evs) - simtemp_sample_seq (run st evs) =
   stats_updates st - simtemp_sample_seq st"
  by (induction evs rule: rev_induct) (simp_all add: run_def step_counters)

text \<open>
  Claim C10. \<^verbatim>\<open>stats_updates\<close> and \<^verbatim>\<open>simtemp_sample_seq\<close> are both zero after
  probing, are equal in every state reached from there by ticks, sysfs writes and reads,
  are each incremented by the tick, and are left alone by every other operation.
\<close>

theorem updates_eq_sample_seq:
  "stats_updates simtemp_boot = 0 \<and> simtemp_sample_seq simtemp_boot = 0 \<and>
   stats_updates (run simtemp_boot evs) = simtemp_sample_seq (run simtemp_boot evs) \<and>
   stats_updates (step st (Tick rnd)) = stats_updates st + 1 \<and>
   simtemp_sample_seq (step st (Tick rnd)) = simtemp_sample_seq st + 1 \<and>
   stats_updates (step st (Store_sampling_ms pu n)) = stats_updates st \<and>
   simtemp_sample_seq (step st (Store_sampling_ms pu n)) = simtemp_sample_seq st \<and>
   stats_updates (step st (Store_threshold_mC ps n)) = stats_updates st \<and>
   simtemp_sample_seq (step st (Store_threshold_mC ps n)) = simtemp_sample_seq st \<and>
   stats_updates (step st (Store_mode buf)) = stats_updates st \<and>
   simtemp_sample_seq (step st (Store_mode buf)) = simtemp_sample_seq st \<and>
   stats_updates (step st (Read f w now cnt nc)) = stats_updates st \<and>
   simtemp_sample_seq (step st (Read f w now cnt nc)) = simtemp_sample_seq st"
proof -
  have b: "stats_updates simtemp_boot = 0 \<and> simtemp_sample_seq simtemp_boot = 0"
    by (simp add: simtemp_boot_def nxp_simtemp_probe_def simtemp_static_def)
  have "stats_updates (run simtemp_boot evs) - simtemp_sample_seq (run simtemp_boot evs) = 0"
    using b by (simp add: run_counters)
  then have r: "stats_updates (run simtemp_boot evs) = simtemp_sample_seq (run simtemp_boot evs)"
    by simp
  show ?thesis
    using b r
    by (simp add: tick_counters sampling_ms_store_counters threshold_mC_store_counters
        mode_store_counters simtemp_read_counters)
qed

subsection \<open>The numeric setters\<close>

text \<open>
  What the two store functions do with a value that was parsed: the threshold is stored
  whatever it is, the period is stored unless it is zero. The later revision stores
  either only within its limits.
\<close>

lemma threshold_mC_store_parsed:
  "threshold_mC_store st (Some v) n = (Inr n, st\<lparr>threshold_mC := v\<rparr>)"
  by (simp add: threshold_mC_store_def)

lemma threshold_mC_store_rev2_range:
  "threshold_mC_store_rev2 st (Some v) n =
     (if - 20000 \<le> sint v \<and> sint v \<le> 60000 then (Inr n, st\<lparr>threshold_mC := v\<rparr>)
      else (Inl (- EINVAL), st\<lparr>stats_last_error := - EINVAL\<rparr>))"
  by (simp add: threshold_mC_store_rev2_def SIMTEMP_THRESHOLD_MC_MIN_def
      SIMTEMP_THRESHOLD_MC_MAX_def not_less)

lemma sampling_ms_store_parsed:
  "sampling_ms_store st (Some v) n =
     (if v = 0 then (Inl (- EINVAL), st\<lparr>stats_last_error := - EINVAL\<rparr>)
      else (Inr n, st\<lparr>sampling_ms := v\<rparr>))"
  by (simp add: sampling_ms_store_def)

lemma sampling_ms_store_rev2_range:
  "sampling_ms_store_rev2 st (Some v) n =
     (if 1 \<le> unat v \<and> unat v \<le> 10000 then (Inr n, st\<lparr>sampling_ms := v\<rparr>)
      else (Inl (- EINVAL), st\<lparr>stats_last_error := - EINVAL\<rparr>))"
  by (auto simp add: sampling_ms_store_rev2_def SIMTEMP_SAMPLING_MS_MIN_def
      SIMTEMP_SAMPLING_MS_MAX_def word_less_nat_alt word_le_nat_alt not_less)

text \<open>
  Claim C2. The specification lets the threshold setter accept a value exactly when it
  lies in [-20000, 60000]. \<^verbatim>\<open>threshold_mC_store\<close> of this revision has no range check:
  60001 and -20001 are committed and the call returns the byte count. The later
  revision of the same function rejects 60001 with \<^verbatim>\<open>-EINVAL\<close>.
\<close>

theorem threshold_mC_store_accepts_60001:
  "sint (60001 :: s32) = 60001 \<and>
   threshold_mC_store simtemp_boot (Some 60001) 6 =
     (Inr 6, simtemp_boot\<lparr>threshold_mC := 60001\<rparr>) \<and>
   sint (- 20001 :: s32) = - 20001 \<and>
   threshold_mC_store simtemp_boot (Some (- 20001)) 7 =
     (Inr 7, simtemp_boot\<lparr>threshold_mC := - 20001\<rparr>) \<and>
   threshold_mC_store_rev2 simtemp_boot (Some 60001) 6 =
     (Inl (- EINVAL), simtemp_boot\<lparr>stats_last_error := - EINVAL\<rparr>)"
  by (simp add: threshold_mC_store_def threshold_mC_store_rev2_range)

text \<open>
  Claim C3. The specification lets the period setter accept a value exactly when it lies
  in [1, 10000]. \<^verbatim>\<open>sampling_ms_store\<close> of this revision rejects only zero: 10001 is
  committed and the call returns the byte count. The later revision of the same
  function rejects 10001 with \<^verbatim>\<open>-EINVAL\<close>.
\<close>

theorem sampling_ms_store_accepts_10001:
  "unat (10001 :: u32) = 10001 \<and>
   sampling_ms_store simtemp_boot (Some 10001) 6 =
     (Inr 6, simtemp_boot\<lparr>sampling_ms := 10001\<rparr>) \<and>
   sampling_ms_store_rev2 simtemp_boot (Some 10001) 6 =
     (Inl (- EINVAL), simtemp_boot\<lparr>stats_last_error := - EINVAL\<rparr>)"
  by (simp add: sampling_ms_store_def sampling_ms_store_rev2_range)

subsection \<open>The mode setter\<close>

lemma cstr_terminated:
  "CHR 0x00 \<notin> set xs \<Longrightarrow> cstr (xs @ CHR 0x00 # ys) = xs"
  by (induction xs) (auto simp add: cstr_def)

lemma mode_tokens_short:
  "t = ''normal'' \<or> t = ''noisy'' \<or> t = ''ramp'' \<Longrightarrow> length t \<le> 6"
  by auto

lemma mode_store_token:
  assumes "CHR 0x00 \<notin> set buf"
  shows "mode_store st buf =
     (if mode_token buf \<noteq> ''normal'' \<and> mode_token buf \<noteq> ''noisy'' \<and> mode_token buf \<noteq> ''ramp''
      then (Inl (- EINVAL), st\<lparr>stats_last_error := - EINVAL\<rparr>)
      else (Inr (length buf), st\<lparr>mode := mode_token buf\<rparr>))"
proof -
  define len where "len = min (length buf) 15"
  have len: "len \<le> length buf" by (simp add: len_def)
  have nz: "CHR 0x00 \<notin> set (take k buf)" for k
    using assms by (auto dest: in_set_takeD)
  show ?thesis
  proof (cases "0 < len \<and> buf ! (len - 1) = CHR 0x0A")
    case True
    then have k: "len - 1 < length buf" "Suc (len - 1) = len" using len by auto
    have t: "take len buf = take (len - 1) buf @ [buf ! (len - 1)]"
      using take_Suc_conv_app_nth [OF k(1)] k(2) by simp
    have nth: "(take len buf @ [CHR 0x00]) ! (len - 1) = buf ! (len - 1)"
      using True len by (simp add: nth_append)
    have lt: "length (take (len - 1) buf) = len - 1"
      using k by simp
    have e: "take len buf @ [CHR 0x00] = take (len - 1) buf @ buf ! (len - 1) # [CHR 0x00]"
      using t by simp
    have "(take len buf @ [CHR 0x00])[len - 1 := CHR 0x00] =
        (take (len - 1) buf @ buf ! (len - 1) # [CHR 0x00])[len - 1 := CHR 0x00]"
      by (simp only: e)
    also have "\<dots> =
        (take (len - 1) buf @ buf ! (len - 1) # [CHR 0x00])[length (take (len - 1) buf) := CHR 0x00]"
      by (simp only: lt)
    also have "\<dots> = take (len - 1) buf @ CHR 0x00 # [CHR 0x00]"
      by (rule list_update_length)
    finally have upd: "(take len buf @ [CHR 0x00])[len - 1 := CHR 0x00] =
        take (len - 1) buf @ CHR 0x00 # [CHR 0x00]" .
    have c: "cstr ((take len buf @ [CHR 0x00])[len - 1 := CHR 0x00]) = take (len - 1) buf"
      unfolding upd by (rule cstr_terminated [OF nz])
    have m: "mode_token buf = take (len - 1) buf"
      using True by (simp add: mode_token_def len_def Let_def)
    show ?thesis
      unfolding mode_store_def Let_def len_def [symmetric]
      using True nth c m by simp
  next
    case False
    have nth: "0 < len \<Longrightarrow> (take len buf @ [CHR 0x00]) ! (len - 1) = buf ! (len - 1)"
      using len by (simp add: nth_append)
    have c: "cstr (take len buf @ [CHR 0x00]) = take len buf"
      by (rule cstr_terminated [OF nz])
    have m: "mode_token buf = take len buf"
      using False by (auto simp add: mode_token_def len_def Let_def)
    from False nth have n: "\<not> (0 < len \<and> (take len buf @ [CHR 0x00]) ! (len - 1) = CHR 0x0A)"
      by auto
    show ?thesis
      unfolding mode_store_def Let_def len_def [symmetric]
      by (simp only: n if_False c m)
  qed
qed

lemma mode_token_strip:
  "(mode_token buf = ''normal'' \<or> mode_token buf = ''noisy'' \<or> mode_token buf = ''ramp'' \<or>
    strip_newline buf = ''normal'' \<or> strip_newline buf = ''noisy'' \<or> strip_newline buf = ''ramp'')
   \<Longrightarrow> mode_token buf = strip_newline buf"
proof -
  assume a: "mode_token buf = ''normal'' \<or> mode_token buf = ''noisy'' \<or> mode_token buf = ''ramp'' \<or>
    strip_newline buf = ''normal'' \<or> strip_newline buf = ''noisy'' \<or> strip_newline buf = ''ramp''"
  have short: "length buf \<le> 15"
  proof (rule ccontr)
    assume "\<not> length buf \<le> 15"
    then have l: "15 < length buf" by simp
    then have "14 \<le> length (mode_token buf)" "15 \<le> length (strip_newline buf)"
      by (auto simp add: mode_token_def strip_newline_def Let_def)
    with a mode_tokens_short [of "mode_token buf"] mode_tokens_short [of "strip_newline buf"]
    show False by auto
  qed
  show ?thesis
  proof (cases "buf = []")
    case True
    then show ?thesis by (simp add: mode_token_def strip_newline_def)
  next
    case False
    then have "last buf = buf ! (length buf - 1)" "butlast buf = take (length buf - 1) buf"
      by (simp_all add: last_conv_nth butlast_conv_take)
    with False short show ?thesis
      by (simp add: mode_token_def strip_newline_def Let_def min_absorb1)
  qed
qed


text \<open>
  Claim C8, for input without NUL bytes. When the written bytes contain no NUL,
  \<^verbatim>\<open>mode_store\<close> accepts exactly when the input, with one trailing newline removed, is
  \<^verbatim>\<open>normal\<close>, \<^verbatim>\<open>noisy\<close> or \<^verbatim>\<open>ramp\<close>; it then stores that token and returns the
  byte count. Otherwise it returns \<^verbatim>\<open>-EINVAL\<close>, sets \<^verbatim>\<open>stats_last_error\<close> to
  \<^verbatim>\<open>-EINVAL\<close> and changes nothing else, the stored mode included.
\<close>

theorem mode_store_nul_free:
  assumes "CHR 0x00 \<notin> set s"
  shows "mode_store st s =
     (if strip_newline s = ''normal'' \<or> strip_newline s = ''noisy'' \<or> strip_newline s = ''ramp''
      then (Inr (length s), st\<lparr>mode := strip_newline s\<rparr>)
      else (Inl (- EINVAL), st\<lparr>stats_last_error := - EINVAL\<rparr>))"
proof (cases "strip_newline s = ''normal'' \<or> strip_newline s = ''noisy'' \<or> strip_newline s = ''ramp''")
  case True
  then have e: "mode_token s = strip_newline s"
    by (intro mode_token_strip) blast
  from True have "\<not> (strip_newline s \<noteq> ''normal'' \<and> strip_newline s \<noteq> ''noisy'' \<and>
      strip_newline s \<noteq> ''ramp'')"
    by blast
  then show ?thesis
    using True by (simp only: mode_store_token [OF assms] e simp_thms if_True if_False)
next
  case False
  have "\<not> (mode_token s = ''normal'' \<or> mode_token s = ''noisy'' \<or> mode_token s = ''ramp'')"
  proof
    assume a: "mode_token s = ''normal'' \<or> mode_token s = ''noisy'' \<or> mode_token s = ''ramp''"
    then have "mode_token s = strip_newline s"
      by (intro mode_token_strip) blast
    with a False show False by (simp only:)
  qed
  then have "mode_token s \<noteq> ''normal'' \<and> mode_token s \<noteq> ''noisy'' \<and> mode_token s \<noteq> ''ramp''"
    by blast
  then show ?thesis
    using False by (simp only: mode_store_token [OF assms] simp_thms if_True if_False)
qed

theorem mode_store_nul_free_witness:
  "CHR 0x00 \<notin> set (''noisy'' @ [CHR 0x0A]) \<and>
   mode_store simtemp_boot (''noisy'' @ [CHR 0x0A]) = (Inr 6, simtemp_boot\<lparr>mode := ''noisy''\<rparr>)"
  using mode_store_nul_free [of "''noisy'' @ [CHR 0x0A]" simtemp_boot]
  by (simp add: strip_newline_def)

text \<open>
  Claim C8 as written, for every input, does not hold: \<^verbatim>\<open>strcmp\<close> stops at the first
  NUL, so the nine bytes \<^verbatim>\<open>ramp\<close>, NUL, \<^verbatim>\<open>junk\<close> are accepted and \<^verbatim>\<open>ramp\<close> is stored, although
  the input is not one of the three tokens.
\<close>

theorem mode_store_embedded_nul:
  "\<not> (strip_newline (''ramp'' @ CHR 0x00 # ''junk'') = ''normal'' \<or>
      strip_newline (''ramp'' @ CHR 0x00 # ''junk'') = ''noisy'' \<or>
      strip_newline (''ramp'' @ CHR 0x00 # ''junk'') = ''ramp'') \<and>
   mode_store simtemp_boot (''ramp'' @ CHR 0x00 # ''junk'') =
     (Inr 9, simtemp_boot\<lparr>mode := ''ramp''\<rparr>)"
  by (simp add: mode_store_def strip_newline_def cstr_def Let_def)

subsection \<open>Failing reads and the last error\<close>

text \<open>A read that succeeds leaves \<^verbatim>\<open>stats_last_error\<close> as it was.\<close>

lemma read_success_keeps_last_error:
  "fst (simtemp_read st f w now count nc) = Inr x \<Longrightarrow>
   stats_last_error (snd (simtemp_read st f w now count nc)) = stats_last_error st"
  by (cases w) (auto simp add: simtemp_read_def Let_def split: if_splits)

text \<open>
  Claim C5, amended. Every failing read stores the error it returns in
  \<^verbatim>\<open>stats_last_error\<close>: \<^verbatim>\<open>-ERESTARTSYS\<close> when the wait was interrupted by a signal,
  \<^verbatim>\<open>-EINVAL\<close> when the buffer is too small, \<^verbatim>\<open>-EFAULT\<close> when the copy fails. The
  read has no other failure.
\<close>

theorem read_failure_last_error:
  assumes "fst (simtemp_read st f w now count nc) = Inl e"
  shows "stats_last_error (snd (simtemp_read st f w now count nc)) = e \<and>
         (e = - ERESTARTSYS \<or> e = - EINVAL \<or> e = - EFAULT) \<and>
         (e = - ERESTARTSYS \<longleftrightarrow> w = Signalled) \<and>
         (e = - EINVAL \<longleftrightarrow> w = Woken \<and> count < 16) \<and>
         (e = - EFAULT \<longleftrightarrow> w = Woken \<and> 16 \<le> count \<and> nc \<noteq> 0)"
proof (cases w)
  case Woken
  with assms show ?thesis
    by (auto simp add: simtemp_read_def Let_def ERESTARTSYS_def EINVAL_def EFAULT_def
        sizeof_simtemp_sample_def split: if_splits)
next
  case Signalled
  with assms show ?thesis
    by (auto simp add: simtemp_read_def ERESTARTSYS_def EINVAL_def EFAULT_def)
qed

theorem read_failure_last_error_witness:
  "fst (simtemp_read simtemp_boot 0 Signalled 0 16 0) = Inl (- ERESTARTSYS) \<and>
   stats_last_error (snd (simtemp_read simtemp_boot 0 Signalled 0 16 0)) = - ERESTARTSYS"
proof -
  have h: "fst (simtemp_read simtemp_boot 0 Signalled 0 16 0) = Inl (- ERESTARTSYS)"
    by (simp add: simtemp_read_def)
  from h read_failure_last_error [OF h] show ?thesis
    by simp
qed

text \<open>
  Claim C5 as written does not hold: an interrupted read changes
  \<^verbatim>\<open>stats_last_error\<close> from 0 to -512.
\<close>

theorem read_interrupted_sets_last_error:
  "fst (simtemp_read simtemp_boot 0 Signalled 0 16 0) = Inl (- ERESTARTSYS) \<and>
   stats_last_error simtemp_boot = 0 \<and>
   stats_last_error (snd (simtemp_read simtemp_boot 0 Signalled 0 16 0)) = - 512"
  by (simp add: simtemp_read_def simtemp_boot_def nxp_simtemp_probe_def simtemp_static_def
      ERESTARTSYS_def)

subsection \<open>The recorded alert polarity\<close>

text \<open>
  \<^verbatim>\<open>last_alert_state\<close> is a function-static: there is one for all open files, and the
  read does not look at the file it is called on.
\<close>

lemma simtemp_read_ignores_file:
  "simtemp_read st f w now count nc = simtemp_read st g w now count nc"
  by (simp add: simtemp_read_def)

text \<open>
  Once the wait has returned normally, the read records the polarity of the sample and
  counts an alert exactly when that polarity differs from the recorded one, whether or
  not the call then succeeds.
\<close>

lemma read_edge_accounting:
  "last_alert_state (snd (simtemp_read st f Woken now count nc)) =
     (if sint (threshold_mC st) \<le> sint (simtemp_current_mC st) then 1 else 0) \<and>
   stats_alerts (snd (simtemp_read st f Woken now count nc)) =
     (if last_alert_state st =
         (if sint (threshold_mC st) \<le> sint (simtemp_current_mC st) then 1 else 0)
      then stats_alerts st else stats_alerts st + 1)"
  by (simp add: simtemp_read_def Let_def)

lemmas eval_defs =
  run_def simtemp_read_def simtemp_update_temp_def simtemp_mode_normal_def
  threshold_mC_store_def simtemp_boot_def nxp_simtemp_probe_def simtemp_static_def
  sizeof_simtemp_sample_def NEW_SAMPLE_def THRESHOLD_CROSSED_def EINVAL_def EFAULT_def Let_def

text \<open>
  Claim C1. The specification keeps the last observed alert polarity per open session.
  In this revision it is the single \<^verbatim>\<open>last_alert_state\<close>. With the threshold at 44025,
  file 1 and file 2 each read a sample below the threshold (flags 1); after the reading
  has passed the threshold, the read on file 1 counts the edge and sets
  \<^verbatim>\<open>last_alert_state\<close>; the next read on file 2 delivers flags 3, the first
  above-threshold sample that file 2 sees, and \<^verbatim>\<open>stats_alerts\<close> stays at 1: the read
  on file 1 has changed the polarity recorded for file 2.
\<close>

theorem read_alert_state_shared:
  "run simtemp_boot [Store_threshold_mC (Some 44025) 6, Tick 0, Read 1 Woken 0 16 0, Tick 0] =
     simtemp_boot\<lparr>threshold_mC := 44025, simtemp_current_mC := 44020,
                   stats_updates := 2, simtemp_sample_seq := 2\<rparr> \<and>
   simtemp_read (simtemp_boot\<lparr>threshold_mC := 44025, simtemp_current_mC := 44020,
                   stats_updates := 2, simtemp_sample_seq := 2\<rparr>) 2 Woken 0 16 0 =
     (Inr (16, \<lparr>timestamp_ns = 0, temp_mC = 44020, flags = 1\<rparr>),
      simtemp_boot\<lparr>threshold_mC := 44025, simtemp_current_mC := 44020,
                   stats_updates := 2, simtemp_sample_seq := 2\<rparr>) \<and>
   run (simtemp_boot\<lparr>threshold_mC := 44025, simtemp_current_mC := 44020,
                   stats_updates := 2, simtemp_sample_seq := 2\<rparr>)
       [Tick 0, Read 1 Woken 0 16 0, Tick 0] =
     simtemp_boot\<lparr>threshold_mC := 44025, simtemp_current_mC := 44040,
                   stats_updates := 4, simtemp_sample_seq := 4,
                   stats_alerts := 1, last_alert_state := 1\<rparr> \<and>
   simtemp_read (simtemp_boot\<lparr>threshold_mC := 44025, simtemp_current_mC := 44040,
                   stats_updates := 4, simtemp_sample_seq := 4,
                   stats_alerts := 1, last_alert_state := 1\<rparr>) 2 Woken 0 16 0 =
     (Inr (16, \<lparr>timestamp_ns = 0, temp_mC = 44040, flags = 3\<rparr>),
      simtemp_boot\<lparr>threshold_mC := 44025, simtemp_current_mC := 44040,
                   stats_updates := 4, simtemp_sample_seq := 4,
                   stats_alerts := 1, last_alert_state := 1\<rparr>)"
  by (simp add: eval_defs)

text \<open>
  Claim C4. The specification leaves the session state untouched when a read fails for
  a short buffer or a failed copy. In this revision the edge is detected before both
  checks: with the reading at 44020 and the threshold at 44015, a read into an 8-byte
  buffer returns \<^verbatim>\<open>-EINVAL\<close>, and a read whose copy fails returns \<^verbatim>\<open>-EFAULT\<close>, yet
  each has already moved \<^verbatim>\<open>last_alert_state\<close> from 0 to 1 and counted the alert.
\<close>

theorem failed_read_updates_alert_state:
  "run simtemp_boot [Store_threshold_mC (Some 44015) 6, Tick 0, Tick 0] =
     simtemp_boot\<lparr>threshold_mC := 44015, simtemp_current_mC := 44020,
                   stats_updates := 2, simtemp_sample_seq := 2\<rparr> \<and>
   last_alert_state (simtemp_boot\<lparr>threshold_mC := 44015, simtemp_current_mC := 44020,
                   stats_updates := 2, simtemp_sample_seq := 2\<rparr>) = 0 \<and>
   simtemp_read (simtemp_boot\<lparr>threshold_mC := 44015, simtemp_current_mC := 44020,
                   stats_updates := 2, simtemp_sample_seq := 2\<rparr>) 1 Woken 0 8 0 =
     (Inl (- EINVAL),
      simtemp_boot\<lparr>threshold_mC := 44015, simtemp_current_mC := 44020,
                   stats_updates := 2, simtemp_sample_seq := 2,
                   stats_alerts := 1, last_alert_state := 1, stats_last_error := - EINVAL\<rparr>) \<and>
   simtemp_read (simtemp_boot\<lparr>threshold_mC := 44015, simtemp_current_mC := 44020,
                   stats_updates := 2, simtemp_sample_seq := 2\<rparr>) 1 Woken 0 16 16 =
     (Inl (- EFAULT),
      simtemp_boot\<lparr>threshold_mC := 44015, simtemp_current_mC := 44020,
                   stats_updates := 2, simtemp_sample_seq := 2,
                   stats_alerts := 1, last_alert_state := 1, stats_last_error := - EFAULT\<rparr>)"
  by (simp add: eval_defs)

end
